theory Spec2Isabelle
  imports Main
begin

section \<open>JavaScript values\<close>

text \<open>
  The values that flow through the hooks are query results (\<open>Data | undefined\<close>) and
  errors. A defined primitive value is a \<open>jsval\<close>; \<open>undefined\<close> is \<open>None\<close> of
  \<open>jsval option\<close>. Numbers are integers here (no \<open>NaN\<close>, no fractions), so \<open>===\<close> on two
  values is equality of the terms.
\<close>

datatype jsval = JNull | JBool bool | JNum int | JStr string

text \<open>Truthiness, as \<open>&&\<close>, \<open>!\<close> and \<open>Boolean(...)\<close> test it.\<close>

fun truthy :: "jsval option \<Rightarrow> bool" where
  "truthy None = False"
| "truthy (Some JNull) = False"
| "truthy (Some (JBool b)) = b"
| "truthy (Some (JNum n)) = (n \<noteq> 0)"
| "truthy (Some (JStr s)) = (s \<noteq> [])"

text \<open>An \<open>Error\<close> object, identified by its message.\<close>

datatype js_error = JsError (message: string)

section \<open>The query hook of \<open>dist/index.jsx\<close> and \<open>dist/dev.js\<close>\<close>

text \<open>\<open>QueryOptions\<close>: every field is optional, so each is an option.\<close>

record query_options =
  enabled :: "bool option"
  initialData :: "jsval option"
  keepPreviousData :: "bool option"

text \<open>
  The signals that \<open>useQuery\<close> creates (\<open>liveData\<close>, \<open>liveError\<close>, \<open>hasReceivedData\<close>),
  together with the subscriptions the client holds for this call site
  (\<open>subscribed\<close>: the arguments of every \<open>client.onUpdate\<close> not yet unsubscribed) and the
  \<open>unsubscribe\<close> functions registered with \<open>onCleanup\<close> by the last run of the effect
  (\<open>cleanups\<close>, each named by the arguments it was created for).
\<close>

record 'a query_state =
  liveData :: "jsval option"
  liveError :: "js_error option"
  hasReceivedData :: bool
  subscribed :: "'a list"
  cleanups :: "'a list"

text \<open>
  What \<open>useQuery\<close> reads from the resource that \<open>createResource\<close> returns:
  \<open>resource()\<close>, \<open>resource.error\<close>, \<open>resource.loading\<close> and \<open>resource.latest\<close>.
\<close>

record resource =
  resource_value :: "jsval option"
  resource_error :: "js_error option"
  resource_loading :: bool
  resource_latest :: "jsval option"

text \<open>
  Modelled from solid-js's \<open>createResource\<close>, which is not part of the repository:
  \<open>resource.error\<close> and \<open>resource.loading\<close> always return; \<open>resource()\<close> and
  \<open>resource.latest\<close> throw the resource's error when it holds one and no run is in
  flight, and return otherwise. \<open>Inl e\<close> is a throw of \<open>e\<close>, \<open>Inr v\<close> a return of \<open>v\<close>.
  Both reads go to one value inside \<open>createResource\<close>, so a resource it has produced
  has \<open>resource_latest r = resource_value r\<close>.
\<close>

definition read_resource :: "resource \<Rightarrow> js_error + jsval option" where
  "read_resource r =
     (case resource_error r of
        Some e \<Rightarrow> if resource_loading r then Inr (resource_value r) else Inl e
      | None \<Rightarrow> Inr (resource_value r))"

definition read_latest :: "resource \<Rightarrow> js_error + jsval option" where
  "read_latest r =
     (case resource_error r of
        Some e \<Rightarrow> if resource_loading r then Inr (resource_latest r) else Inl e
      | None \<Rightarrow> Inr (resource_latest r))"

text \<open>The state after \<open>createSignal()\<close>, \<open>createSignal()\<close>, \<open>createSignal(false)\<close>.\<close>

definition initial_query_state :: "'a query_state" where
  "initial_query_state =
     \<lparr>liveData = None, liveError = None, hasReceivedData = False,
      subscribed = [], cleanups = []\<rparr>"

text \<open>
  The two callbacks handed to \<open>client.onUpdate\<close>. Each body runs inside \<open>batch\<close>, so
  the three writes are one step.
\<close>

definition onUpdate_data :: "jsval option \<Rightarrow> 'a query_state \<Rightarrow> 'a query_state" where
  "onUpdate_data data2 s =
     s\<lparr>liveData := data2, liveError := None, hasReceivedData := True\<rparr>"

definition onUpdate_error :: "js_error option \<Rightarrow> 'a query_state \<Rightarrow> 'a query_state" where
  "onUpdate_error error2 s =
     s\<lparr>liveError := error2, liveData := None, hasReceivedData := True\<rparr>"

text \<open>
  The memos \<open>data\<close>, \<open>error\<close>, \<open>isLoading\<close> and \<open>isStale\<close>. \<open>data\<close> returns the live
  value without reading the resource; otherwise it reads \<open>resource.latest\<close> (when
  \<open>keepPreviousData\<close> is set) or \<open>resource()\<close>, and throws what the read throws.
  \<open>isStale\<close> reads \<open>resource.latest\<close> and \<open>data()\<close> only after \<open>resource.loading\<close> has
  tested true, where both reads return.
\<close>

definition data ::
  "query_options \<Rightarrow> 'a query_state \<Rightarrow> resource \<Rightarrow> js_error + jsval option" where
  "data opts s r =
     (case liveData s of
        Some live \<Rightarrow> Inr (Some live)
      | None \<Rightarrow>
          if keepPreviousData opts = Some True
          then (case read_latest r of
                  Inl e \<Rightarrow> Inl e
                | Inr latest \<Rightarrow> if truthy latest then read_latest r else read_resource r)
          else read_resource r)"

definition error :: "'a query_state \<Rightarrow> resource \<Rightarrow> js_error option" where
  "error s r = (case liveError s of Some e \<Rightarrow> Some e | None \<Rightarrow> resource_error r)"


definition isStale :: "query_options \<Rightarrow> 'a query_state \<Rightarrow> resource \<Rightarrow> bool" where
  "isStale opts s r =
     (keepPreviousData opts = Some True \<and> resource_loading r \<and>
      truthy (resource_latest r) \<and> data opts s r = Inr (resource_latest r))"

text \<open>
  The subscription's callbacks as events: \<open>Delivered d\<close> is a call of the success
  callback with \<open>d\<close>, \<open>Failed e\<close> a call of the error callback with \<open>e\<close>.
\<close>

datatype callback = Delivered "jsval option" | Failed "js_error option"

fun deliver :: "callback \<Rightarrow> 'a query_state \<Rightarrow> 'a query_state" where
  "deliver (Delivered d) s = onUpdate_data d s"
| "deliver (Failed e) s = onUpdate_error e s"


subsection \<open>The resource: key function and fetcher\<close>

text \<open>
  A value thrown or a promise's rejection: an \<open>Error\<close> object or any other value.
  A promise settles by resolving with a value or rejecting with a thrown one.
\<close>

datatype thrown = ThrownError js_error | ThrownValue "jsval option"

datatype settled = Resolved "jsval option" | Rejected thrown

text \<open>\<open>client.client.localQueryResult\<close> returns a value or \<open>undefined\<close>, or throws.\<close>

datatype cache_read = Returns "jsval option" | Throws

text \<open>
  What the fetcher reads from outside the hook: \<open>isServer\<close>, whether \<open>httpClient\<close> is
  non-null, and what each of its three calls answers when made with \<open>source.args\<close>:
  how \<open>httpClient.query\<close> settles, what \<open>client.client.localQueryResult\<close> does, and
  how \<open>client.query\<close> settles.
\<close>

record environment =
  isServer :: bool
  httpClient :: bool
  httpClient_query :: settled
  localQueryResult :: cache_read
  client_query :: settled

text \<open>The calls a run of the fetcher makes, in order, each with its arguments.\<close>

datatype 'a call = HttpClientQuery 'a | LocalQueryResult 'a | ClientQuery 'a

fun is_network :: "'a call \<Rightarrow> bool" where
  "is_network (HttpClientQuery a) = True"
| "is_network (LocalQueryResult a) = False"
| "is_network (ClientQuery a) = True"

text \<open>Whether the synchronous cache read gives a defined value.\<close>

fun cache_hit :: "cache_read \<Rightarrow> bool" where
  "cache_hit (Returns (Some v)) = True"
| "cache_hit (Returns None) = False"
| "cache_hit Throws = False"

text \<open>
  The first argument of \<open>createResource\<close>: \<open>null\<close> (here \<open>None\<close>) when
  \<open>opts.enabled === false\<close>, otherwise \<open>{ args: getArgs() }\<close>.
\<close>

definition source :: "query_options \<Rightarrow> 'a \<Rightarrow> 'a option" where
  "source opts args = (if enabled opts = Some False then None else Some args)"

text \<open>
  The second argument of \<open>createResource\<close>, the async fetcher, applied to
  \<open>source.args\<close>: the calls it makes and how its promise settles.
\<close>

definition fetcher ::
  "environment \<Rightarrow> query_options \<Rightarrow> 'b query_state \<Rightarrow> 'a \<Rightarrow> 'a call list \<times> settled" where
  "fetcher env opts s args =
     (if isServer env \<and> initialData opts \<noteq> None then ([], Resolved (initialData opts))
      else if isServer env \<and> httpClient env
      then ([HttpClientQuery args], httpClient_query env)
      else
        (case localQueryResult env of
           Returns (Some result) \<Rightarrow> ([LocalQueryResult args], Resolved (Some result))
         | _ \<Rightarrow>
             if initialData opts \<noteq> None \<and> \<not> hasReceivedData s
             then ([LocalQueryResult args], Resolved (initialData opts))
             else ([LocalQueryResult args, ClientQuery args], client_query env)))"

text \<open>
  Modelled from the spec: \<open>createResource\<close> of solid-js is not part of the repository.
  The spec's async-resource primitive is keyed by a reactive key and re-executes the
  loader when the key changes; with the no-op key the loader does not execute; and
  \<open>refetch\<close> re-executes the loader for the current key without changing the key.
  \<open>load\<close> is one execution for the key the options and arguments give, \<open>None\<close> when
  nothing runs; \<open>refetch\<close> is such an execution with the key as it is.
\<close>

definition load ::
  "environment \<Rightarrow> query_options \<Rightarrow> 'b query_state \<Rightarrow> 'a \<Rightarrow> ('a call list \<times> settled) option" where
  "load env opts s args =
     (case source opts args of
        None \<Rightarrow> None
      | Some key \<Rightarrow> Some (fetcher env opts s key))"

definition refetch ::
  "environment \<Rightarrow> query_options \<Rightarrow> 'b query_state \<Rightarrow> 'a \<Rightarrow> ('a call list \<times> settled) option" where
  "refetch env opts s args = load env opts s args"

subsection \<open>The subscription effect\<close>

text \<open>
  \<open>unsubscribe\<close> is the function \<open>client.onUpdate\<close> returns: it ends the subscription
  it was created for.
\<close>

definition unsubscribe :: "'a \<Rightarrow> 'a query_state \<Rightarrow> 'a query_state" where
  "unsubscribe a s = s\<lparr>subscribed := remove1 a (subscribed s)\<rparr>"

text \<open>
  The body of the effect for the pair \<open>[args2, enabled]\<close>: nothing when
  \<open>enabled === false\<close>, otherwise \<open>client.onUpdate(query, args2, ...)\<close> and
  \<open>onCleanup(unsubscribe)\<close>.
\<close>

definition subscription_effect :: "'a \<Rightarrow> bool option \<Rightarrow> 'a query_state \<Rightarrow> 'a query_state" where
  "subscription_effect args2 en s =
     (if en = Some False then s
      else s\<lparr>subscribed := subscribed s @ [args2], cleanups := cleanups s @ [args2]\<rparr>)"

text \<open>
  Modelled from the spec: \<open>createEffect\<close>, \<open>on\<close> and \<open>onCleanup\<close> of solid-js are not part
  of the repository. The spec's effect scope runs each registered cleanup exactly once
  when the effect runs again or its scope is disposed. \<open>run_cleanups\<close> calls the
  registered \<open>unsubscribe\<close> functions and empties the registry; \<open>rerun_effect\<close> is one
  run of the effect after \<open>getArgs\<close> or \<open>getOptions().enabled\<close> changed (or the first
  run); \<open>dispose\<close> is the disposal of the owning scope.
\<close>

definition run_cleanups :: "'a query_state \<Rightarrow> 'a query_state" where
  "run_cleanups s = (fold unsubscribe (cleanups s) s)\<lparr>cleanups := []\<rparr>"

definition rerun_effect :: "'a \<Rightarrow> bool option \<Rightarrow> 'a query_state \<Rightarrow> 'a query_state" where
  "rerun_effect args2 en s = subscription_effect args2 en (run_cleanups s)"

definition dispose :: "'a query_state \<Rightarrow> 'a query_state" where
  "dispose s = run_cleanups s"

text \<open>Everything that can happen to the hook's own state, as events.\<close>

datatype 'a event =
  Changed 'a "bool option"
| Callback callback
| Disposed

fun handle :: "'a event \<Rightarrow> 'a query_state \<Rightarrow> 'a query_state" where
  "handle (Changed a en) s = rerun_effect a en s"
| "handle (Callback c) s = deliver c s"
| "handle Disposed s = dispose s"

definition run :: "'a event list \<Rightarrow> 'a query_state \<Rightarrow> 'a query_state" where
  "run evs s = fold handle evs s"

section \<open>The mutation and action hooks\<close>

text \<open>
  \<open>String(v)\<close> for the values of \<open>jsval option\<close>. A number is an integer and prints in
  decimal, as JavaScript prints integers below \<open>1e21\<close> in magnitude.
\<close>

definition digit :: "nat \<Rightarrow> char" where
  "digit d = ''0123456789'' ! d"

fun digits :: "nat \<Rightarrow> string" where
  "digits n = (if n < 10 then [digit n] else digits (n div 10) @ [digit (n mod 10)])"

declare digits.simps [simp del]

fun js_String :: "jsval option \<Rightarrow> string" where
  "js_String None = ''undefined''"
| "js_String (Some JNull) = ''null''"
| "js_String (Some (JBool b)) = (if b then ''true'' else ''false'')"
| "js_String (Some (JNum n)) =
     (if n < 0 then CHR ''-'' # digits (nat (- n)) else digits (nat n))"
| "js_String (Some (JStr s)) = s"

text \<open>\<open>const err = error instanceof Error ? error : new Error(String(error))\<close>.\<close>

fun err :: "thrown \<Rightarrow> js_error" where
  "err (ThrownError e) = e"
| "err (ThrownValue v) = JsError (js_String v)"

text \<open>\<open>MutationState\<close>: the object held by the \<open>state\<close> signal.\<close>

record mutation_state =
  state_data :: "jsval option"
  state_error :: "js_error option"
  state_isLoading :: bool

text \<open>\<open>createSignal({ isLoading: false })\<close>, which is also what \<open>reset\<close> stores.\<close>

definition initial_mutation_state :: mutation_state where
  "initial_mutation_state =
     \<lparr>state_data = None, state_error = None, state_isLoading = False\<rparr>"

definition reset :: "mutation_state \<Rightarrow> mutation_state" where
  "reset st = \<lparr>state_data = None, state_error = None, state_isLoading = False\<rparr>"

text \<open>
  \<open>mutateAsync\<close> in two parts, split at its \<open>await\<close>. Up to the await it stores
  \<open>{ isLoading: true }\<close>. When \<open>client.mutation\<close> has settled it stores the result or the
  normalised error and settles its own promise: \<open>Inr result\<close> is a resolution,
  \<open>Inl err\<close> a rejection.
\<close>

definition mutateAsync_start :: "mutation_state \<Rightarrow> mutation_state" where
  "mutateAsync_start st = \<lparr>state_data = None, state_error = None, state_isLoading = True\<rparr>"

fun mutateAsync_settle ::
  "settled \<Rightarrow> mutation_state \<Rightarrow> mutation_state \<times> (js_error + jsval option)" where
  "mutateAsync_settle (Resolved result) st =
     (\<lparr>state_data = result, state_error = None, state_isLoading = False\<rparr>, Inr result)"
| "mutateAsync_settle (Rejected e) st =
     (\<lparr>state_data = None, state_error = Some (err e), state_isLoading = False\<rparr>,
      Inl (err e))"

text \<open>
  A whole call with nothing in between: the state while the call is awaited, the state
  after it, and the settlement of the returned promise. \<open>client_mutation\<close> is how
  \<open>client.mutation(mutation, args)\<close> settles.
\<close>

definition mutateAsync ::
  "settled \<Rightarrow> mutation_state \<Rightarrow>
     mutation_state \<times> mutation_state \<times> (js_error + jsval option)" where
  "mutateAsync client_mutation st =
     (let awaiting = mutateAsync_start st;
          (final, promise) = mutateAsync_settle client_mutation awaiting
      in (awaiting, final, promise))"

text \<open>The returned object has \<open>mutate: mutateAsync\<close>.\<close>

definition mutate ::
  "settled \<Rightarrow> mutation_state \<Rightarrow>
     mutation_state \<times> mutation_state \<times> (js_error + jsval option)" where
  "mutate = mutateAsync"

text \<open>
  \<open>useAction\<close> has the same body with \<open>client.action\<close> in place of
  \<open>client.mutation\<close>; both of its \<open>mutate\<close> and \<open>mutateAsync\<close> are \<open>executeAsync\<close>.
\<close>

definition executeAsync_start :: "mutation_state \<Rightarrow> mutation_state" where
  "executeAsync_start st = \<lparr>state_data = None, state_error = None, state_isLoading = True\<rparr>"

fun executeAsync_settle ::
  "settled \<Rightarrow> mutation_state \<Rightarrow> mutation_state \<times> (js_error + jsval option)" where
  "executeAsync_settle (Resolved result) st =
     (\<lparr>state_data = result, state_error = None, state_isLoading = False\<rparr>, Inr result)"
| "executeAsync_settle (Rejected e) st =
     (\<lparr>state_data = None, state_error = Some (err e), state_isLoading = False\<rparr>,
      Inl (err e))"

definition executeAsync ::
  "settled \<Rightarrow> mutation_state \<Rightarrow>
     mutation_state \<times> mutation_state \<times> (js_error + jsval option)" where
  "executeAsync client_action st =
     (let awaiting = executeAsync_start st;
          (final, promise) = executeAsync_settle client_action awaiting
      in (awaiting, final, promise))"

text \<open>
  Calls may overlap: a caller need not await one call before making the next. A call is
  named by a number; \<open>Call i\<close> runs call \<open>i\<close> up to its await, \<open>Settle i out\<close> resumes
  it when its request has settled with \<open>out\<close>, \<open>Reset\<close> is \<open>reset()\<close>. Beside the signal's
  state the calls still awaited are kept, oldest first. A \<open>Settle\<close> for a call that is
  not awaited does nothing.
\<close>

datatype mutation_event = Call nat | Settle nat settled | Reset

fun mutation_step ::
  "mutation_event \<Rightarrow> mutation_state \<times> nat list \<Rightarrow> mutation_state \<times> nat list" where
  "mutation_step (Call i) (st, pending) = (mutateAsync_start st, pending @ [i])"
| "mutation_step (Settle i out) (st, pending) =
     (if i \<in> set pending then (fst (mutateAsync_settle out st), remove1 i pending)
      else (st, pending))"
| "mutation_step Reset (st, pending) = (reset st, pending)"

definition mutation_run ::
  "mutation_event list \<Rightarrow> mutation_state \<times> nat list \<Rightarrow> mutation_state \<times> nat list" where
  "mutation_run evs c = fold mutation_step evs c"

section \<open>The query hook of the TypeScript source (\<open>src/unnamed/part_000\<close>)\<close>

text \<open>
  This revision keeps a \<open>version\<close> counter in place of \<open>hasReceivedData\<close>, makes it part of
  the resource's key, and derives the public accessors from the resource alone.
\<close>

record ts_query_state =
  ts_liveData :: "jsval option"
  ts_liveError :: "js_error option"
  version :: nat

definition ts_initial_query_state :: ts_query_state where
  "ts_initial_query_state = \<lparr>ts_liveData = None, ts_liveError = None, version = 0\<rparr>"

definition ts_onUpdate_data :: "jsval option \<Rightarrow> ts_query_state \<Rightarrow> ts_query_state" where
  "ts_onUpdate_data d s =
     s\<lparr>ts_liveData := d, ts_liveError := None, version := version s + 1\<rparr>"

definition ts_onUpdate_error :: "js_error option \<Rightarrow> ts_query_state \<Rightarrow> ts_query_state" where
  "ts_onUpdate_error e s =
     s\<lparr>ts_liveError := e, ts_liveData := None, version := version s + 1\<rparr>"

fun ts_deliver :: "callback \<Rightarrow> ts_query_state \<Rightarrow> ts_query_state" where
  "ts_deliver (Delivered d) s = ts_onUpdate_data d s"
| "ts_deliver (Failed e) s = ts_onUpdate_error e s"

definition ts_source :: "query_options \<Rightarrow> ts_query_state \<Rightarrow> 'a \<Rightarrow> ('a \<times> nat) option" where
  "ts_source opts s args =
     (if enabled opts = Some False then None else Some (args, version s))"

definition ts_fetcher ::
  "environment \<Rightarrow> query_options \<Rightarrow> ts_query_state \<Rightarrow> 'a \<Rightarrow> 'a call list \<times> settled" where
  "ts_fetcher env opts s args =
     (if isServer env \<and> httpClient env
      then ([HttpClientQuery args], httpClient_query env)
      else
        (case localQueryResult env of
           Returns (Some result) \<Rightarrow> ([LocalQueryResult args], Resolved (Some result))
         | _ \<Rightarrow>
             (case ts_liveError s of
                Some e \<Rightarrow> ([LocalQueryResult args], Rejected (ThrownError e))
              | None \<Rightarrow>
                  (case ts_liveData s of
                     Some d \<Rightarrow> ([LocalQueryResult args], Resolved (Some d))
                   | None \<Rightarrow>
                       if initialData opts \<noteq> None \<and> version s = 0
                       then ([LocalQueryResult args], Resolved (initialData opts))
                       else ([LocalQueryResult args], Resolved None)))))"

text \<open>
  \<open>data\<close> reads \<open>resource.latest\<close> only when \<open>keepPreviousData\<close> is set and
  \<open>resource.loading\<close> is true, and \<open>resource()\<close> otherwise. \<open>isLoading\<close> and \<open>isStale\<close>
  read \<open>data()\<close> only after \<open>resource.loading\<close> has tested true, where it returns.
\<close>

definition ts_data :: "query_options \<Rightarrow> resource \<Rightarrow> js_error + jsval option" where
  "ts_data opts r =
     (if keepPreviousData opts = Some True \<and> resource_loading r
      then (case read_latest r of
              Inl e \<Rightarrow> Inl e
            | Inr latest \<Rightarrow> if truthy latest then read_latest r else read_resource r)
      else read_resource r)"

definition ts_error :: "resource \<Rightarrow> js_error option" where
  "ts_error r = resource_error r"

definition ts_isLoading :: "query_options \<Rightarrow> resource \<Rightarrow> bool" where
  "ts_isLoading opts r =
     (resource_loading r \<and>
      (case ts_data opts r of Inl e \<Rightarrow> False | Inr d \<Rightarrow> \<not> truthy d))"

definition ts_isStale :: "query_options \<Rightarrow> resource \<Rightarrow> bool" where
  "ts_isStale opts r =
     (keepPreviousData opts = Some True \<and> resource_loading r \<and>
      truthy (resource_latest r) \<and> ts_data opts r = Inr (resource_latest r))"

text \<open>
  Modelled from the spec, as \<open>load\<close> and \<open>refetch\<close> above: one execution of this
  revision's fetcher for its key, and \<open>refetch\<close> for the current key.
\<close>

definition ts_load ::
  "environment \<Rightarrow> query_options \<Rightarrow> ts_query_state \<Rightarrow> 'a \<Rightarrow> ('a call list \<times> settled) option" where
  "ts_load env opts s args =
     (case ts_source opts s args of
        None \<Rightarrow> None
      | Some key \<Rightarrow> Some (ts_fetcher env opts s (fst key)))"

definition ts_refetch ::
  "environment \<Rightarrow> query_options \<Rightarrow> ts_query_state \<Rightarrow> 'a \<Rightarrow> ('a call list \<times> settled) option" where
  "ts_refetch env opts s args = ts_load env opts s args"

section \<open>The reconciler as the specification words it\<close>

text \<open>
  \<open>isStale\<close> in the spec's words: \<open>keepPreviousData\<close> is enabled, a run is in flight, a
  \<open>latestCompleted\<close> exists and the visible data equals it.
\<close>

definition spec_isStale :: "query_options \<Rightarrow> 'a query_state \<Rightarrow> resource \<Rightarrow> bool" where
  "spec_isStale opts s r =
     (keepPreviousData opts = Some True \<and> resource_loading r \<and> resource_latest r \<noteq> None \<and>
      data opts s r = Inr (resource_latest r))"

section \<open>Claims\<close>

text \<open>
  Reading the resource: what the two reads give, that they agree on a resource with one
  value, and what \<open>data\<close> is there in each revision.
\<close>

lemma read_resource_cases:
  "(\<not> resource_loading r \<and> resource_error r = Some e \<longrightarrow> read_resource r = Inl e) \<and>
   (resource_loading r \<or> resource_error r = None \<longrightarrow> read_resource r = Inr (resource_value r))"
  by (auto simp add: read_resource_def split: option.split)

lemma read_latest_one_value:
  "resource_latest r = resource_value r \<Longrightarrow> read_latest r = read_resource r"
  by (cases "resource_error r") (simp_all add: read_latest_def read_resource_def)

lemma data_one_value:
  "resource_latest r = resource_value r \<Longrightarrow>
   data opts s r = (case liveData s of Some live \<Rightarrow> Inr (Some live) | None \<Rightarrow> read_resource r)"
  by (simp add: data_def read_latest_one_value split: option.split sum.split)

lemma ts_data_one_value:
  "resource_latest r = resource_value r \<Longrightarrow> ts_data opts r = read_resource r"
  by (simp add: ts_data_def read_latest_one_value split: sum.split)


text \<open>
  C1, as amended, for a resource whose two reads give one value, as \<open>createResource\<close>
  produces it. In the dist builds, if the live slot holds a defined value, \<open>data\<close> is
  that value, whatever the resource holds; with no live value, \<open>data\<close> is what reading
  the resource gives. In the TypeScript source, \<open>data\<close> is what reading the resource
  gives, whatever the live slot holds. Reading the resource throws the resource's error
  when it holds one and no run is in flight, and gives the resource's value otherwise;
  \<open>resource()\<close> and \<open>resource.latest\<close> read the same value, so \<open>keepPreviousData\<close> makes
  no difference to \<open>data\<close>.
\<close>

theorem data_precedence:
  "(liveData s = Some d \<longrightarrow> data opts s r = Inr (Some d)) \<and>
   (liveData s = None \<and> resource_latest r = resource_value r \<longrightarrow>
      data opts s r = read_resource r) \<and>
   (resource_latest r = resource_value r \<longrightarrow> ts_data opts r = read_resource r) \<and>
   (\<not> resource_loading r \<and> resource_error r = Some e \<longrightarrow> read_resource r = Inl e) \<and>
   (resource_loading r \<or> resource_error r = None \<longrightarrow>
      read_resource r = Inr (resource_value r))"
proof -
  have live: "liveData s = Some d \<longrightarrow> data opts s r = Inr (Some d)"
    by (simp add: data_def)
  have none: "liveData s = None \<and> resource_latest r = resource_value r \<longrightarrow>
      data opts s r = read_resource r"
    by (simp add: data_one_value)
  have ts: "resource_latest r = resource_value r \<longrightarrow> ts_data opts r = read_resource r"
    by (simp add: ts_data_one_value)
  from live none ts read_resource_cases [of r e] show ?thesis by blast
qed

text \<open>
  In the dist builds: a live value 5 over an errored resource; no live value over a
  loading resource holding 10; no live value over a resource that holds the error \<open>L\<close>
  with no run in flight. In the TypeScript source: the loading resource and the errored
  one.
\<close>

theorem data_precedence_witness:
  "data \<lparr>enabled = None, initialData = None, keepPreviousData = Some True\<rparr>
        (onUpdate_data (Some (JNum 5)) (initial_query_state :: unit query_state))
        \<lparr>resource_value = Some (JNum 10), resource_error = Some (JsError ''L''),
         resource_loading = False, resource_latest = Some (JNum 10)\<rparr> = Inr (Some (JNum 5)) \<and>
   data \<lparr>enabled = None, initialData = None, keepPreviousData = Some True\<rparr>
        (initial_query_state :: unit query_state)
        \<lparr>resource_value = Some (JNum 10), resource_error = None, resource_loading = True,
         resource_latest = Some (JNum 10)\<rparr> = Inr (Some (JNum 10)) \<and>
   data \<lparr>enabled = None, initialData = None, keepPreviousData = Some True\<rparr>
        (initial_query_state :: unit query_state)
        \<lparr>resource_value = Some (JNum 10), resource_error = Some (JsError ''L''),
         resource_loading = False, resource_latest = Some (JNum 10)\<rparr> = Inl (JsError ''L'') \<and>
   ts_data \<lparr>enabled = None, initialData = None, keepPreviousData = Some True\<rparr>
        \<lparr>resource_value = Some (JNum 10), resource_error = None, resource_loading = True,
         resource_latest = Some (JNum 10)\<rparr> = Inr (Some (JNum 10)) \<and>
   ts_data \<lparr>enabled = None, initialData = None, keepPreviousData = None\<rparr>
        \<lparr>resource_value = Some (JNum 10), resource_error = Some (JsError ''L''),
         resource_loading = False, resource_latest = Some (JNum 10)\<rparr> = Inl (JsError ''L'')"
  using
    data_precedence [of
      "onUpdate_data (Some (JNum 5)) (initial_query_state :: unit query_state)" "JNum 5"
      "\<lparr>enabled = None, initialData = None, keepPreviousData = Some True\<rparr>"
      "\<lparr>resource_value = Some (JNum 10), resource_error = Some (JsError ''L''),
         resource_loading = False, resource_latest = Some (JNum 10)\<rparr>" "JsError ''L''"]
    data_precedence [of "initial_query_state :: unit query_state" "JNum 5"
      "\<lparr>enabled = None, initialData = None, keepPreviousData = Some True\<rparr>"
      "\<lparr>resource_value = Some (JNum 10), resource_error = None, resource_loading = True,
         resource_latest = Some (JNum 10)\<rparr>" "JsError ''L''"]
    data_precedence [of "initial_query_state :: unit query_state" "JNum 5"
      "\<lparr>enabled = None, initialData = None, keepPreviousData = Some True\<rparr>"
      "\<lparr>resource_value = Some (JNum 10), resource_error = Some (JsError ''L''),
         resource_loading = False, resource_latest = Some (JNum 10)\<rparr>" "JsError ''L''"]
    data_precedence [of "initial_query_state :: unit query_state" "JNum 5"
      "\<lparr>enabled = None, initialData = None, keepPreviousData = None\<rparr>"
      "\<lparr>resource_value = Some (JNum 10), resource_error = Some (JsError ''L''),
         resource_loading = False, resource_latest = Some (JNum 10)\<rparr>" "JsError ''L''"]
  by (simp add: onUpdate_data_def initial_query_state_def)

text \<open>
  C1 as stated fails in the TypeScript source: the subscription has delivered 5, the
  loader run that follows is in flight and the resource holds no value yet; the live slot
  holds 5 and \<open>data\<close> is \<open>undefined\<close>.
\<close>

theorem data_counterexample:
  "ts_liveData (ts_onUpdate_data (Some (JNum 5)) ts_initial_query_state) = Some (JNum 5) \<and>
   ts_data \<lparr>enabled = None, initialData = None, keepPreviousData = None\<rparr>
        \<lparr>resource_value = None, resource_error = None, resource_loading = True,
         resource_latest = None\<rparr> = Inr None"
  by (simp add: ts_onUpdate_data_def ts_data_def read_resource_def)


lemma ts_fetcher_chain:
  "(isServer env \<and> httpClient env \<longrightarrow>
      ts_fetcher env opts t a = ([HttpClientQuery a], httpClient_query env)) \<and>
   (\<not> (isServer env \<and> httpClient env) \<and> localQueryResult env = Returns (Some v) \<longrightarrow>
      ts_fetcher env opts t a = ([LocalQueryResult a], Resolved (Some v))) \<and>
   (\<not> (isServer env \<and> httpClient env) \<and> \<not> cache_hit (localQueryResult env) \<and>
    ts_liveError t = Some e \<longrightarrow>
      ts_fetcher env opts t a = ([LocalQueryResult a], Rejected (ThrownError e))) \<and>
   (\<not> (isServer env \<and> httpClient env) \<and> \<not> cache_hit (localQueryResult env) \<and>
    ts_liveError t = None \<and> ts_liveData t = Some d \<longrightarrow>
      ts_fetcher env opts t a = ([LocalQueryResult a], Resolved (Some d))) \<and>
   (\<not> (isServer env \<and> httpClient env) \<and> \<not> cache_hit (localQueryResult env) \<and>
    ts_liveError t = None \<and> ts_liveData t = None \<and>
    initialData opts = Some i \<and> version t = 0 \<longrightarrow>
      ts_fetcher env opts t a = ([LocalQueryResult a], Resolved (Some i))) \<and>
   (\<not> (isServer env \<and> httpClient env) \<and> \<not> cache_hit (localQueryResult env) \<and>
    ts_liveError t = None \<and> ts_liveData t = None \<and>
    (initialData opts = None \<or> version t \<noteq> 0) \<longrightarrow>
      ts_fetcher env opts t a = ([LocalQueryResult a], Resolved None))"
  by (cases "localQueryResult env" rule: cache_hit.cases)
     (auto simp add: ts_fetcher_def)







text \<open>
  C4, as amended. In the dist builds a live error takes precedence over the resource's
  error, which shows when there is no live error. After the error callback has delivered
  an error \<open>e\<close>, \<open>error\<close> is \<open>e\<close> and the live slot's value is \<open>undefined\<close>; \<open>data\<close> is then,
  for a resource whose two reads give one value, what reading the resource gives: a throw of the resource's error when it holds one and
  no run is in flight, the resource's value otherwise. In the TypeScript source \<open>error\<close>
  is the resource's error alone; a live error \<open>e\<close> reaches it through the fetcher, which
  off the server's HTTP path and without a defined cache value rejects with \<open>e\<close>.
\<close>

theorem error_precedence:
  "(liveError s = Some e \<longrightarrow> error s r = Some e) \<and>
   (liveError s = None \<longrightarrow> error s r = resource_error r) \<and>
   error (onUpdate_error (Some e) s) r = Some e \<and>
   liveData (onUpdate_error (Some e) s) = None \<and>
   (resource_latest r = resource_value r \<longrightarrow>
      data opts (onUpdate_error (Some e) s) r = read_resource r) \<and>
   (\<not> resource_loading r \<and> resource_error r = Some l \<longrightarrow> read_resource r = Inl l) \<and>
   (resource_loading r \<or> resource_error r = None \<longrightarrow>
      read_resource r = Inr (resource_value r)) \<and>
   ts_error r = resource_error r \<and>
   (\<not> (isServer env \<and> httpClient env) \<and> \<not> cache_hit (localQueryResult env) \<longrightarrow>
      ts_fetcher env opts (ts_onUpdate_error (Some e) t) a =
        ([LocalQueryResult a], Rejected (ThrownError e)))"
proof -
  have live: "liveData (onUpdate_error (Some e) s) = None"
    by (simp add: onUpdate_error_def)
  have dat: "resource_latest r = resource_value r \<longrightarrow>
      data opts (onUpdate_error (Some e) s) r = read_resource r"
    by (simp add: data_one_value live)
  have err: "(liveError s = Some e \<longrightarrow> error s r = Some e) \<and>
    (liveError s = None \<longrightarrow> error s r = resource_error r) \<and>
    error (onUpdate_error (Some e) s) r = Some e"
    by (simp add: error_def onUpdate_error_def)
  have ts: "\<not> (isServer env \<and> httpClient env) \<and> \<not> cache_hit (localQueryResult env) \<longrightarrow>
      ts_fetcher env opts (ts_onUpdate_error (Some e) t) a =
        ([LocalQueryResult a], Rejected (ThrownError e))"
    using ts_fetcher_chain [of env opts "ts_onUpdate_error (Some e) t" a _ e]
    by (simp add: ts_onUpdate_error_def)
  from live dat err ts read_resource_cases [of r l] show ?thesis
    by (simp add: ts_error_def)
qed

text \<open>
  After a delivery of the error \<open>E\<close>: over a resource holding the error \<open>L\<close> with no run
  in flight, \<open>error\<close> is \<open>E\<close> and \<open>data\<close> throws \<open>L\<close>; before the delivery \<open>error\<close> is \<open>L\<close>;
  over a resource holding 3, \<open>data\<close> is 3; and the fetcher of the TypeScript source
  rejects with \<open>E\<close>.
\<close>

theorem error_precedence_witness:
  "error (onUpdate_error (Some (JsError ''E'')) (initial_query_state :: unit query_state))
        \<lparr>resource_value = None, resource_error = Some (JsError ''L''),
         resource_loading = False, resource_latest = None\<rparr> = Some (JsError ''E'') \<and>
   error (initial_query_state :: unit query_state)
        \<lparr>resource_value = None, resource_error = Some (JsError ''L''),
         resource_loading = False, resource_latest = None\<rparr> = Some (JsError ''L'') \<and>
   data \<lparr>enabled = None, initialData = None, keepPreviousData = None\<rparr>
        (onUpdate_error (Some (JsError ''E'')) (initial_query_state :: unit query_state))
        \<lparr>resource_value = None, resource_error = Some (JsError ''L''),
         resource_loading = False, resource_latest = None\<rparr> = Inl (JsError ''L'') \<and>
   data \<lparr>enabled = None, initialData = None, keepPreviousData = Some True\<rparr>
        (onUpdate_error (Some (JsError ''E'')) (initial_query_state :: unit query_state))
        \<lparr>resource_value = Some (JNum 3), resource_error = None,
         resource_loading = False, resource_latest = Some (JNum 3)\<rparr> = Inr (Some (JNum 3)) \<and>
   ts_fetcher \<lparr>isServer = False, httpClient = False, httpClient_query = Resolved (Some (JNum 1)),
            localQueryResult = Throws, client_query = Resolved (Some (JNum 3))\<rparr>
     \<lparr>enabled = None, initialData = None, keepPreviousData = None\<rparr>
     (ts_onUpdate_error (Some (JsError ''E'')) ts_initial_query_state) ''args'' =
       ([LocalQueryResult ''args''], Rejected (ThrownError (JsError ''E'')))"
  using
    error_precedence [of "initial_query_state :: unit query_state" "JsError ''E''"
      "\<lparr>resource_value = None, resource_error = Some (JsError ''L''),
         resource_loading = False, resource_latest = None\<rparr>"
      "\<lparr>enabled = None, initialData = None, keepPreviousData = None\<rparr>" "JsError ''L''"
      "\<lparr>isServer = False, httpClient = False, httpClient_query = Resolved (Some (JNum 1)),
            localQueryResult = Throws, client_query = Resolved (Some (JNum 3))\<rparr>"
      ts_initial_query_state "''args''"]
    error_precedence [of "initial_query_state :: unit query_state" "JsError ''E''"
      "\<lparr>resource_value = Some (JNum 3), resource_error = None,
         resource_loading = False, resource_latest = Some (JNum 3)\<rparr>"
      "\<lparr>enabled = None, initialData = None, keepPreviousData = Some True\<rparr>" "JsError ''L''"
      "\<lparr>isServer = False, httpClient = False, httpClient_query = Resolved (Some (JNum 1)),
            localQueryResult = Throws, client_query = Resolved (Some (JNum 3))\<rparr>"
      ts_initial_query_state "''args''"]
  by (simp add: initial_query_state_def)

text \<open>
  C4 as stated fails where the resource holds a value: the loader has completed with 10
  (the configured \<open>initialData\<close>), then the subscription delivers the error \<open>E\<close>;
  \<open>error\<close> is \<open>E\<close> and \<open>data\<close> is still 10, not \<open>undefined\<close>.
\<close>

theorem error_counterexample:
  "error (onUpdate_error (Some (JsError ''E'')) (initial_query_state :: unit query_state))
        \<lparr>resource_value = Some (JNum 10), resource_error = None,
         resource_loading = False, resource_latest = Some (JNum 10)\<rparr> = Some (JsError ''E'') \<and>
   data \<lparr>enabled = None, initialData = Some (JNum 10), keepPreviousData = None\<rparr>
        (onUpdate_error (Some (JsError ''E'')) (initial_query_state :: unit query_state))
        \<lparr>resource_value = Some (JNum 10), resource_error = None,
         resource_loading = False, resource_latest = Some (JNum 10)\<rparr> = Inr (Some (JNum 10))"
  by (simp add: error_def data_def read_resource_def onUpdate_error_def initial_query_state_def)


lemma fold_remove1_append: "fold remove1 xs (xs @ ys) = ys"
  by (induction xs) simp_all

lemma fold_unsubscribe:
  "fold unsubscribe xs s = s\<lparr>subscribed := fold remove1 xs (subscribed s)\<rparr>"
  by (induction xs arbitrary: s) (simp_all add: unsubscribe_def)

lemma run_cleanups_eq:
  "run_cleanups s = s\<lparr>subscribed := fold remove1 (cleanups s) (subscribed s), cleanups := []\<rparr>"
  by (simp add: run_cleanups_def fold_unsubscribe)

lemma run_cleanups_tracked:
  "subscribed s = cleanups s \<Longrightarrow> run_cleanups s = s\<lparr>subscribed := [], cleanups := []\<rparr>"
  using fold_remove1_append [of "cleanups s" "[]"] by (simp add: run_cleanups_eq)

lemma handle_tracked:
  "subscribed s = cleanups s \<Longrightarrow> subscribed (handle ev s) = cleanups (handle ev s)"
proof (cases ev)
  case (Changed a en)
  assume "subscribed s = cleanups s"
  then show ?thesis
    using Changed by (simp add: rerun_effect_def subscription_effect_def run_cleanups_tracked)
next
  case (Callback c)
  assume "subscribed s = cleanups s"
  then show ?thesis
    using Callback by (cases c) (simp_all add: onUpdate_data_def onUpdate_error_def)
next
  case Disposed
  assume "subscribed s = cleanups s"
  then show ?thesis
    using Disposed by (simp add: dispose_def run_cleanups_tracked)
qed

lemma run_tracked:
  "subscribed s = cleanups s \<Longrightarrow> subscribed (run evs s) = cleanups (run evs s)"
proof (induction evs arbitrary: s)
  case Nil
  then show ?case by (simp add: run_def)
next
  case (Cons ev evs)
  from Cons.IH [OF handle_tracked [OF Cons.prems]] show ?case by (simp add: run_def)
qed

lemma run_initial_tracked:
  "subscribed (run evs initial_query_state) = cleanups (run evs initial_query_state)"
  by (rule run_tracked) (simp add: initial_query_state_def)

lemma rerun_effect_reachable:
  "rerun_effect a en (run evs initial_query_state) =
     (if en = Some False
      then (run evs initial_query_state)\<lparr>subscribed := [], cleanups := []\<rparr>
      else (run evs initial_query_state)\<lparr>subscribed := [a], cleanups := [a]\<rparr>)"
  by (simp add: rerun_effect_def subscription_effect_def
      run_cleanups_tracked [OF run_initial_tracked])

text \<open>
  C5. When the options have \<open>enabled === false\<close>, the key function returns the no-op key
  and neither a load nor a refetch runs the fetcher; and in every state the hook can
  reach, the run of the effect for the disabled pair ends the subscription of the
  previous run, creates none, and leaves \<open>liveData\<close>, \<open>liveError\<close> and
  \<open>hasReceivedData\<close> as they were.
\<close>

theorem disabled_query:
  assumes "enabled opts = Some False"
  shows "source opts a = None \<and> load env opts s a = None \<and>
    refetch env opts s a = None \<and>
    subscribed (rerun_effect a (enabled opts) (run evs initial_query_state)) = [] \<and>
    liveData (rerun_effect a (enabled opts) (run evs initial_query_state)) =
      liveData (run evs initial_query_state) \<and>
    liveError (rerun_effect a (enabled opts) (run evs initial_query_state)) =
      liveError (run evs initial_query_state) \<and>
    hasReceivedData (rerun_effect a (enabled opts) (run evs initial_query_state)) =
      hasReceivedData (run evs initial_query_state)"
  using assms by (simp add: source_def load_def refetch_def rerun_effect_reachable)

text \<open>
  A query subscribed for \<open>''a''\<close> that has received 5 and is then disabled: the
  subscription is gone and 5 is still in the live slot.
\<close>

theorem disabled_query_witness:
  "subscribed (run [Changed ''a'' None, Callback (Delivered (Some (JNum 5)))]
      initial_query_state) = [''a''] \<and>
   liveData (run [Changed ''a'' None, Callback (Delivered (Some (JNum 5)))]
      (initial_query_state :: string query_state)) = Some (JNum 5) \<and>
   source \<lparr>enabled = Some False, initialData = None, keepPreviousData = None\<rparr> ''a'' = None \<and>
   load \<lparr>isServer = False, httpClient = False, httpClient_query = Resolved None,
         localQueryResult = Throws, client_query = Resolved (Some (JNum 5))\<rparr>
     \<lparr>enabled = Some False, initialData = None, keepPreviousData = None\<rparr>
     (run [Changed ''a'' None, Callback (Delivered (Some (JNum 5)))] initial_query_state)
     ''a'' = None \<and>
   subscribed (rerun_effect ''a'' (Some False)
     (run [Changed ''a'' None, Callback (Delivered (Some (JNum 5)))] initial_query_state)) = [] \<and>
   liveData (rerun_effect ''a'' (Some False)
     (run [Changed ''a'' None, Callback (Delivered (Some (JNum 5)))] initial_query_state)) =
     Some (JNum 5)"
proof -
  have en: "enabled \<lparr>enabled = Some False, initialData = None, keepPreviousData = None\<rparr> = Some False"
    by simp
  have before: "run [Changed ''a'' None, Callback (Delivered (Some (JNum 5)))]
      (initial_query_state :: string query_state) =
      \<lparr>liveData = Some (JNum 5), liveError = None, hasReceivedData = True,
       subscribed = [''a''], cleanups = [''a'']\<rparr>"
    by (simp add: run_def rerun_effect_def subscription_effect_def run_cleanups_def
        onUpdate_data_def initial_query_state_def)
  show ?thesis
    using disabled_query [OF en, of "''a''"
        "\<lparr>isServer = False, httpClient = False, httpClient_query = Resolved None,
         localQueryResult = Throws, client_query = Resolved (Some (JNum 5))\<rparr>"
        "run [Changed ''a'' None, Callback (Delivered (Some (JNum 5)))] initial_query_state"
        "[Changed ''a'' None, Callback (Delivered (Some (JNum 5)))]"]
    by (simp add: before)
qed

text \<open>While the query is enabled, each run of the effect leaves exactly one subscription.\<close>

lemma one_subscription_when_enabled:
  "en \<noteq> Some False \<Longrightarrow> subscribed (rerun_effect a en (run evs initial_query_state)) = [a]"
  by (simp add: rerun_effect_reachable)


text \<open>
  C7. With \<open>keepPreviousData\<close> enabled, a run in flight, the earlier result 0 in
  \<open>resource.latest\<close> and 0 as the visible data, all four conditions of the spec hold,
  and \<open>isStale\<close> is false: the hook tests \<open>resource.latest\<close> for truthiness.
\<close>

theorem isStale_falsy_latest:
  "spec_isStale \<lparr>enabled = None, initialData = None, keepPreviousData = Some True\<rparr>
        (initial_query_state :: unit query_state)
        \<lparr>resource_value = Some (JNum 0), resource_error = None,
         resource_loading = True, resource_latest = Some (JNum 0)\<rparr> \<and>
   \<not> isStale \<lparr>enabled = None, initialData = None, keepPreviousData = Some True\<rparr>
        (initial_query_state :: unit query_state)
        \<lparr>resource_value = Some (JNum 0), resource_error = None,
         resource_loading = True, resource_latest = Some (JNum 0)\<rparr>"
  by (simp add: data_def read_latest_def read_resource_def isStale_def spec_isStale_def
      initial_query_state_def)

text \<open>Wherever \<open>resource.latest\<close> is truthy or absent, \<open>isStale\<close> is the spec's.\<close>

lemma isStale_spec_agree:
  "truthy (resource_latest r) \<or> resource_latest r = None \<Longrightarrow>
   isStale opts s r = spec_isStale opts s r"
  by (cases "resource_latest r") (auto simp add: isStale_def spec_isStale_def)

lemma fetcher_network_iff:
  "list_ex is_network (fst (fetcher env opts s a)) \<longleftrightarrow>
     (isServer env \<and> initialData opts = None \<and> httpClient env) \<or>
     (\<not> (isServer env \<and> initialData opts \<noteq> None) \<and> \<not> (isServer env \<and> httpClient env) \<and>
      \<not> cache_hit (localQueryResult env) \<and> (initialData opts = None \<or> hasReceivedData s))"
  by (cases "localQueryResult env" rule: cache_hit.cases)
     (auto simp add: fetcher_def)

lemma ts_fetcher_network_iff:
  "list_ex is_network (fst (ts_fetcher env opts t a)) \<longleftrightarrow> isServer env \<and> httpClient env"
  by (simp add: ts_fetcher_def split: cache_read.split option.split)

text \<open>
  C8, as amended. \<open>refetch\<close> re-executes the fetcher for the current key, which it leaves
  as it is, and does nothing when the query is disabled. The re-execution walks the same
  fallback chain as any run. In the dist builds it makes a network query exactly when
  the chain reaches one, that is on the server without \<open>initialData\<close> and with an HTTP
  client, or, outside the two server branches, when the cache gives no defined value and
  \<open>initialData\<close> is absent or a callback has been received. In the TypeScript source it
  makes a network query exactly on the server with an HTTP client, and never on the
  client.
\<close>

theorem refetch_reruns_chain:
  "(enabled opts \<noteq> Some False \<longrightarrow> refetch env opts s a = Some (fetcher env opts s a)) \<and>
   (enabled opts = Some False \<longrightarrow> refetch env opts s a = None) \<and>
   (list_ex is_network (fst (fetcher env opts s a)) \<longleftrightarrow>
     (isServer env \<and> initialData opts = None \<and> httpClient env) \<or>
     (\<not> (isServer env \<and> initialData opts \<noteq> None) \<and> \<not> (isServer env \<and> httpClient env) \<and>
      \<not> cache_hit (localQueryResult env) \<and> (initialData opts = None \<or> hasReceivedData s))) \<and>
   (enabled opts \<noteq> Some False \<longrightarrow>
      ts_refetch env opts t a = Some (ts_fetcher env opts t a)) \<and>
   (enabled opts = Some False \<longrightarrow> ts_refetch env opts t a = None) \<and>
   (list_ex is_network (fst (ts_fetcher env opts t a)) \<longleftrightarrow> isServer env \<and> httpClient env)"
  using fetcher_network_iff [of env opts s a] ts_fetcher_network_iff [of env opts t a]
  by (simp add: refetch_def load_def source_def ts_refetch_def ts_load_def ts_source_def)

text \<open>
  An enabled query whose cache read throws, and a disabled one, in each revision.
\<close>

theorem refetch_reruns_chain_witness:
  "refetch \<lparr>isServer = False, httpClient = False, httpClient_query = Resolved (Some (JNum 1)),
            localQueryResult = Throws, client_query = Resolved (Some (JNum 8))\<rparr>
     \<lparr>enabled = Some True, initialData = None, keepPreviousData = None\<rparr>
     (initial_query_state :: unit query_state) ''args'' =
       Some ([LocalQueryResult ''args'', ClientQuery ''args''], Resolved (Some (JNum 8))) \<and>
   refetch \<lparr>isServer = False, httpClient = False, httpClient_query = Resolved (Some (JNum 1)),
            localQueryResult = Throws, client_query = Resolved (Some (JNum 8))\<rparr>
     \<lparr>enabled = Some False, initialData = None, keepPreviousData = None\<rparr>
     (initial_query_state :: unit query_state) ''args'' = None \<and>
   ts_refetch \<lparr>isServer = False, httpClient = False, httpClient_query = Resolved (Some (JNum 1)),
            localQueryResult = Throws, client_query = Resolved (Some (JNum 8))\<rparr>
     \<lparr>enabled = Some True, initialData = None, keepPreviousData = None\<rparr>
     ts_initial_query_state ''args'' = Some ([LocalQueryResult ''args''], Resolved None) \<and>
   ts_refetch \<lparr>isServer = False, httpClient = False, httpClient_query = Resolved (Some (JNum 1)),
            localQueryResult = Throws, client_query = Resolved (Some (JNum 8))\<rparr>
     \<lparr>enabled = Some False, initialData = None, keepPreviousData = None\<rparr>
     ts_initial_query_state ''args'' = None"
  using
    refetch_reruns_chain [of
      "\<lparr>enabled = Some True, initialData = None, keepPreviousData = None\<rparr>"
      "\<lparr>isServer = False, httpClient = False, httpClient_query = Resolved (Some (JNum 1)),
            localQueryResult = Throws, client_query = Resolved (Some (JNum 8))\<rparr>"
      "initial_query_state :: unit query_state" "''args''" ts_initial_query_state]
    refetch_reruns_chain [of
      "\<lparr>enabled = Some False, initialData = None, keepPreviousData = None\<rparr>"
      "\<lparr>isServer = False, httpClient = False, httpClient_query = Resolved (Some (JNum 1)),
            localQueryResult = Throws, client_query = Resolved (Some (JNum 8))\<rparr>"
      "initial_query_state :: unit query_state" "''args''" ts_initial_query_state]
  by (simp add: fetcher_def initial_query_state_def ts_fetcher_def ts_initial_query_state_def)

text \<open>
  C8 as stated fails when the cache answers: on the client, after the subscription has
  delivered 7 and the cache returns 7, \<open>refetch\<close> resolves with the cached value and
  makes no network query.
\<close>

theorem refetch_counterexample:
  "refetch \<lparr>isServer = False, httpClient = False, httpClient_query = Resolved (Some (JNum 1)),
            localQueryResult = Returns (Some (JNum 7)), client_query = Resolved (Some (JNum 8))\<rparr>
     \<lparr>enabled = None, initialData = None, keepPreviousData = None\<rparr>
     (onUpdate_data (Some (JNum 7)) (initial_query_state :: unit query_state)) ''args'' =
       Some ([LocalQueryResult ''args''], Resolved (Some (JNum 7))) \<and>
   \<not> list_ex is_network [LocalQueryResult ''args'']"
  by (simp add: refetch_def load_def source_def fetcher_def)

text \<open>
  C9. \<open>mutate\<close> is \<open>mutateAsync\<close>. When the underlying call rejects with \<open>v\<close>, the hook
  stores the normalised error (\<open>v\<close> itself if it is an \<open>Error\<close>, otherwise an \<open>Error\<close>
  whose message is \<open>String(v)\<close>) with \<open>isLoading\<close> false, and the returned promise
  rejects with the same error; when it resolves with \<open>x\<close>, the hook stores \<open>x\<close> with
  \<open>isLoading\<close> false and the promise resolves with \<open>x\<close>. The action hook does the same.
\<close>

theorem mutateAsync_outcomes:
  "mutate = mutateAsync \<and>
   mutateAsync (Rejected v) st =
     (\<lparr>state_data = None, state_error = None, state_isLoading = True\<rparr>,
      \<lparr>state_data = None, state_error = Some (err v), state_isLoading = False\<rparr>,
      Inl (err v)) \<and>
   mutateAsync (Resolved x) st =
     (\<lparr>state_data = None, state_error = None, state_isLoading = True\<rparr>,
      \<lparr>state_data = x, state_error = None, state_isLoading = False\<rparr>,
      Inr x) \<and>
   executeAsync (Rejected v) st =
     (\<lparr>state_data = None, state_error = None, state_isLoading = True\<rparr>,
      \<lparr>state_data = None, state_error = Some (err v), state_isLoading = False\<rparr>,
      Inl (err v)) \<and>
   executeAsync (Resolved x) st =
     (\<lparr>state_data = None, state_error = None, state_isLoading = True\<rparr>,
      \<lparr>state_data = x, state_error = None, state_isLoading = False\<rparr>,
      Inr x) \<and>
   err (ThrownError e) = e \<and>
   err (ThrownValue w) = JsError (js_String w)"
  by (simp add: mutate_def mutateAsync_def mutateAsync_start_def
      executeAsync_def executeAsync_start_def)

text \<open>A call rejecting with the string \<open>boom\<close>, and one rejecting with the number -42.\<close>

theorem mutateAsync_outcomes_witness:
  "mutateAsync (Rejected (ThrownValue (Some (JStr ''boom'')))) initial_mutation_state =
     (\<lparr>state_data = None, state_error = None, state_isLoading = True\<rparr>,
      \<lparr>state_data = None, state_error = Some (JsError ''boom''), state_isLoading = False\<rparr>,
      Inl (JsError ''boom'')) \<and>
   mutateAsync (Rejected (ThrownValue (Some (JNum (- 42))))) initial_mutation_state =
     (\<lparr>state_data = None, state_error = None, state_isLoading = True\<rparr>,
      \<lparr>state_data = None, state_error = Some (JsError ''-42''), state_isLoading = False\<rparr>,
      Inl (JsError ''-42''))"
  using
    mutateAsync_outcomes [of "ThrownValue (Some (JStr ''boom''))" initial_mutation_state
      None "JsError []" "Some (JStr ''boom'')"]
    mutateAsync_outcomes [of "ThrownValue (Some (JNum (- 42)))" initial_mutation_state
      None "JsError []" "Some (JNum (- 42))"]
  by (simp add: digits.simps digit_def)

lemma mutation_step_invariant:
  assumes "\<not> (state_data (fst c) \<noteq> None \<and> state_error (fst c) \<noteq> None)"
    and "\<not> (state_isLoading (fst c) \<and> state_data (fst c) \<noteq> None)"
    and "\<not> (state_isLoading (fst c) \<and> state_error (fst c) \<noteq> None)"
  shows "\<not> (state_data (fst (mutation_step ev c)) \<noteq> None \<and>
            state_error (fst (mutation_step ev c)) \<noteq> None) \<and>
         \<not> (state_isLoading (fst (mutation_step ev c)) \<and>
            state_data (fst (mutation_step ev c)) \<noteq> None) \<and>
         \<not> (state_isLoading (fst (mutation_step ev c)) \<and>
            state_error (fst (mutation_step ev c)) \<noteq> None)"
proof (cases c)
  case (Pair st pending)
  show ?thesis
  proof (cases ev)
    case (Call i)
    with Pair show ?thesis by (simp add: mutateAsync_start_def)
  next
    case (Settle i out)
    with Pair assms show ?thesis by (cases out) auto
  next
    case Reset
    with Pair show ?thesis by (simp add: reset_def)
  qed
qed

lemma mutation_run_invariant:
  assumes "\<not> (state_data (fst c) \<noteq> None \<and> state_error (fst c) \<noteq> None)"
    and "\<not> (state_isLoading (fst c) \<and> state_data (fst c) \<noteq> None)"
    and "\<not> (state_isLoading (fst c) \<and> state_error (fst c) \<noteq> None)"
  shows "\<not> (state_data (fst (mutation_run evs c)) \<noteq> None \<and>
            state_error (fst (mutation_run evs c)) \<noteq> None) \<and>
         \<not> (state_isLoading (fst (mutation_run evs c)) \<and>
            state_data (fst (mutation_run evs c)) \<noteq> None) \<and>
         \<not> (state_isLoading (fst (mutation_run evs c)) \<and>
            state_error (fst (mutation_run evs c)) \<noteq> None)"
  using assms
proof (induction evs arbitrary: c)
  case Nil
  then show ?case by (simp add: mutation_run_def)
next
  case (Cons ev evs)
  have step: "\<not> (state_data (fst (mutation_step ev c)) \<noteq> None \<and>
            state_error (fst (mutation_step ev c)) \<noteq> None) \<and>
         \<not> (state_isLoading (fst (mutation_step ev c)) \<and>
            state_data (fst (mutation_step ev c)) \<noteq> None) \<and>
         \<not> (state_isLoading (fst (mutation_step ev c)) \<and>
            state_error (fst (mutation_step ev c)) \<noteq> None)"
    by (rule mutation_step_invariant) (use Cons.prems in auto)
  have "mutation_run (ev # evs) c = mutation_run evs (mutation_step ev c)"
    by (simp add: mutation_run_def)
  moreover from step have
    "\<not> (state_data (fst (mutation_run evs (mutation_step ev c))) \<noteq> None \<and>
        state_error (fst (mutation_run evs (mutation_step ev c))) \<noteq> None) \<and>
     \<not> (state_isLoading (fst (mutation_run evs (mutation_step ev c))) \<and>
        state_data (fst (mutation_run evs (mutation_step ev c))) \<noteq> None) \<and>
     \<not> (state_isLoading (fst (mutation_run evs (mutation_step ev c))) \<and>
        state_error (fst (mutation_run evs (mutation_step ev c))) \<noteq> None)"
    by (intro Cons.IH) auto
  ultimately show ?case by simp
qed

lemma mutation_run_snoc:
  "mutation_run (evs @ [ev]) c = mutation_step ev (mutation_run evs c)"
  by (simp add: mutation_run_def)

text \<open>
  C10, as amended. Through every sequence of calls, settlements and resets, overlapping
  or not, the state of the mutation hook never holds data and an error together, and
  while \<open>isLoading\<close> is true it holds neither. Starting a call replaces the state
  wholesale with \<open>{ isLoading: true }\<close>, so right after a call has started nothing of an
  earlier call is visible. The action hook has the same two steps. A call that
  is still awaited stores its outcome when it settles, whichever calls have started
  since.
\<close>

theorem mutation_state_invariant:
  "\<not> (state_data (fst (mutation_run evs (initial_mutation_state, []))) \<noteq> None \<and>
      state_error (fst (mutation_run evs (initial_mutation_state, []))) \<noteq> None) \<and>
   \<not> (state_isLoading (fst (mutation_run evs (initial_mutation_state, []))) \<and>
      state_data (fst (mutation_run evs (initial_mutation_state, []))) \<noteq> None) \<and>
   \<not> (state_isLoading (fst (mutation_run evs (initial_mutation_state, []))) \<and>
      state_error (fst (mutation_run evs (initial_mutation_state, []))) \<noteq> None) \<and>
   mutateAsync_start st =
     \<lparr>state_data = None, state_error = None, state_isLoading = True\<rparr> \<and>
   executeAsync_start st = mutateAsync_start st \<and>
   executeAsync_settle out st = mutateAsync_settle out st \<and>
   fst (mutation_run (evs @ [Call i]) (initial_mutation_state, [])) =
     \<lparr>state_data = None, state_error = None, state_isLoading = True\<rparr> \<and>
   (j \<in> set pending \<longrightarrow>
      mutation_step (Settle j out) (st, pending) =
        (fst (mutateAsync_settle out st), remove1 j pending))"
proof -
  have inv: "\<not> (state_data (fst (mutation_run evs (initial_mutation_state, []))) \<noteq> None \<and>
      state_error (fst (mutation_run evs (initial_mutation_state, []))) \<noteq> None) \<and>
   \<not> (state_isLoading (fst (mutation_run evs (initial_mutation_state, []))) \<and>
      state_data (fst (mutation_run evs (initial_mutation_state, []))) \<noteq> None) \<and>
   \<not> (state_isLoading (fst (mutation_run evs (initial_mutation_state, []))) \<and>
      state_error (fst (mutation_run evs (initial_mutation_state, []))) \<noteq> None)"
    by (rule mutation_run_invariant) (simp_all add: initial_mutation_state_def)
  have start: "fst (mutation_run (evs @ [Call i]) (initial_mutation_state, [])) =
     \<lparr>state_data = None, state_error = None, state_isLoading = True\<rparr>"
    by (cases "mutation_run evs (initial_mutation_state, [])")
       (simp add: mutation_run_snoc mutateAsync_start_def)
  have same: "executeAsync_settle out st = mutateAsync_settle out st"
    by (cases out) simp_all
  from inv start same show ?thesis
    by (simp add: mutateAsync_start_def executeAsync_start_def)
qed

text \<open>
  A second call started after the first has settled with 7 hides the 7; and of two
  awaited calls the first, rejecting with \<open>boom\<close>, stores its error while the second is
  still awaited.
\<close>

theorem mutation_state_invariant_witness:
  "fst (mutation_run ([Call 1, Settle 1 (Resolved (Some (JNum 7)))] @ [Call 2])
     (initial_mutation_state, [])) =
     \<lparr>state_data = None, state_error = None, state_isLoading = True\<rparr> \<and>
   fst (mutation_run [Call 1, Settle 1 (Resolved (Some (JNum 7)))]
     (initial_mutation_state, [])) =
     \<lparr>state_data = Some (JNum 7), state_error = None, state_isLoading = False\<rparr> \<and>
   (1::nat) \<in> set [1, 2] \<and>
   mutation_step (Settle 1 (Rejected (ThrownValue (Some (JStr ''boom'')))))
     (\<lparr>state_data = None, state_error = None, state_isLoading = True\<rparr>, [1, 2]) =
     (\<lparr>state_data = None, state_error = Some (JsError ''boom''), state_isLoading = False\<rparr>,
      [2])"
proof -
  have mem: "(1::nat) \<in> set [1, 2]" by simp
  have run: "fst (mutation_run [Call 1, Settle 1 (Resolved (Some (JNum 7)))]
     (initial_mutation_state, [])) =
     \<lparr>state_data = Some (JNum 7), state_error = None, state_isLoading = False\<rparr>"
    by (simp add: mutation_run_def)
  show ?thesis
    using mem run
      mutation_state_invariant [of "[Call 1, Settle 1 (Resolved (Some (JNum 7)))]"
        "\<lparr>state_data = None, state_error = None, state_isLoading = True\<rparr>"
        "Rejected (ThrownValue (Some (JStr ''boom'')))" 2 1 "[1, 2]"]
    by simp
qed

text \<open>
  C10 as stated fails when calls overlap: call 1 starts, call 2 starts, call 1 resolves
  with 7. Call 2 is still awaited, and the state shows the result of the earlier call
  with \<open>isLoading\<close> false.
\<close>

theorem mutation_overlap_counterexample:
  "mutation_run [Call 1, Call 2, Settle 1 (Resolved (Some (JNum 7)))]
     (initial_mutation_state, []) =
     (\<lparr>state_data = Some (JNum 7), state_error = None, state_isLoading = False\<rparr>, [2])"
  by (simp add: mutation_run_def mutateAsync_start_def initial_mutation_state_def)

section \<open>The TypeScript revision against the same claims\<close>

text \<open>
  Its callbacks keep the live slot exclusive as well, and \<open>version\<close> is zero exactly
  before the first callback.
\<close>

lemma ts_live_slot_exclusive:
  "\<not> (ts_liveData (fold ts_deliver cbs ts_initial_query_state) \<noteq> None \<and>
      ts_liveError (fold ts_deliver cbs ts_initial_query_state) \<noteq> None) \<and>
   (version (fold ts_deliver cbs ts_initial_query_state) = 0) = (cbs = [])"
proof -
  have "\<not> (ts_liveData (fold ts_deliver cbs s) \<noteq> None \<and>
          ts_liveError (fold ts_deliver cbs s) \<noteq> None) \<and>
        version (fold ts_deliver cbs s) = version s + length cbs"
    if "\<not> (ts_liveData s \<noteq> None \<and> ts_liveError s \<noteq> None)" for s
    using that
  proof (induction cbs arbitrary: s)
    case Nil
    then show ?case by simp
  next
    case (Cons c cbs)
    have "\<not> (ts_liveData (ts_deliver c s) \<noteq> None \<and> ts_liveError (ts_deliver c s) \<noteq> None)"
      and "version (ts_deliver c s) = version s + 1"
      by (cases c; simp add: ts_onUpdate_data_def ts_onUpdate_error_def)+
    with Cons.IH [of "ts_deliver c s"] show ?case by simp
  qed
  from this [of ts_initial_query_state] show ?thesis
    by (simp add: ts_initial_query_state_def)
qed

text \<open>Its fetcher never makes the client's network query.\<close>

lemma ts_fetcher_no_client_query:
  "ClientQuery b \<notin> set (fst (ts_fetcher env opts s a))"
  by (simp add: ts_fetcher_def split: cache_read.split option.split)

text \<open>
  Its \<open>isLoading\<close> reads the resource alone: while the resource is loading without a
  value it is true, whatever the live slot holds.
\<close>

lemma ts_isLoading_live_value:
  "ts_isLoading \<lparr>enabled = None, initialData = None, keepPreviousData = None\<rparr>
     \<lparr>resource_value = None, resource_error = None, resource_loading = True,
      resource_latest = None\<rparr>"
  by (simp add: ts_isLoading_def ts_data_def read_resource_def)

text \<open>Its \<open>isStale\<close> tests \<open>resource.latest\<close> for truthiness in the same way.\<close>

lemma ts_isStale_falsy_latest:
  "\<not> ts_isStale \<lparr>enabled = None, initialData = None, keepPreviousData = Some True\<rparr>
        \<lparr>resource_value = Some (JNum 0), resource_error = None,
         resource_loading = True, resource_latest = Some (JNum 0)\<rparr>"
  by (simp add: ts_isStale_def)

end
